theory Spec2Isabelle
  imports Main "HOL-Library.Word"
begin

section \<open>Data model of package scriptsrc\<close>

subsection \<open>HashAlgorithm\<close>

text \<open>
  \<^verbatim>\<open>type HashAlgorithm uint8\<close> with the two constants \<^verbatim>\<open>Sha512 = 0\<close> and
  \<^verbatim>\<open>Sha256 = 1\<close>. The type is a plain byte, so the other 254 values exist too and
  reach the \<^verbatim>\<open>default\<close> branch of \<^verbatim>\<open>AddInline\<close>.
\<close>

type_synonym HashAlgorithm = "8 word"

definition Sha512 :: HashAlgorithm where
  "Sha512 = 0"

definition Sha256 :: HashAlgorithm where
  "Sha256 = 1"

subsection \<open>ScriptSrc\<close>

record ScriptSrc =
  Self :: bool
  Hashes :: "string list"
  DefaultHashAlgorithm :: HashAlgorithm
  Hosts :: "string list"
  Others :: "string list"

text \<open>The zero value \<^verbatim>\<open>ScriptSrc{}\<close>: nil slices, false, algorithm 0.\<close>

definition ScriptSrc_zero :: ScriptSrc where
  "ScriptSrc_zero =
     \<lparr>Self = False, Hashes = [], DefaultHashAlgorithm = 0, Hosts = [], Others = []\<rparr>"

subsection \<open>Errors and panics\<close>

text \<open>
  One constructor for each \<^verbatim>\<open>fmt.Errorf\<close> of the package, carrying the values it
  formats; \<open>LibError\<close> is an error value handed over by a library (\<^verbatim>\<open>url.Parse\<close>,
  \<^verbatim>\<open>os.Open\<close>, \<^verbatim>\<open>html.Parse\<close>) with its message. The constructors with an
  \<open>error\<close> argument are the \<^verbatim>\<open>%w\<close> wrappers.
\<close>

datatype error =
    LibError string
  | FailedToParseScriptSrc string error
  | InsecureScriptSrc string
  | FailedToUnderstandScriptSrc string
  | SecondSrcAttribute string
  | NoSrcNoContent
  | ChildNotTextNode
  | MultipleChildren
  | FailedToParseHTML string error
  | FailedToProcess string error
  | MultipleErrors "error list"

text \<open>The only \<^verbatim>\<open>panic\<close> of the package, with the offending value.\<close>

datatype panic = InvalidHashAlgorithm HashAlgorithm

subsection \<open>The parsed document (package html)\<close>

datatype NodeType =
  ErrorNode | TextNode | DocumentNode | ElementNode | CommentNode | DoctypeNode | RawNode

record Attribute =
  Namespace :: string
  Key :: string
  Val :: string

text \<open>
  A node as the walk reads it: type, data, attributes, and the two pointers
  \<^verbatim>\<open>FirstChild\<close> and \<^verbatim>\<open>NextSibling\<close> (\<open>None\<close> is \<^verbatim>\<open>nil\<close>). A datatype value is
  finite, which is the acyclicity the parser guarantees.
\<close>

datatype Node =
  Node (Type: NodeType) (Data: string) (Attr: "Attribute list")
       (FirstChild: "Node option") (NextSibling: "Node option")

subsection \<open>Library functions the package calls\<close>

text \<open>
  \<^verbatim>\<open>url.URL\<close> with the fields a reference is split into. The package reads
  \<open>Scheme\<close> and \<open>Host\<close> only.
\<close>

record URL =
  Scheme :: string
  Host :: string
  Path :: string
  RawQuery :: string
  Fragment :: string

text \<open>
  The functions of the Go libraries are parameters of the model: every theorem below
  holds for whatever they compute. \<open>os_Open\<close> gives the bytes the opened file
  yields to \<^verbatim>\<open>html.Parse\<close>.
\<close>

record golib =
  url_Parse :: "string \<Rightarrow> error + URL"
  sha512_Sum :: "string \<Rightarrow> string"
  sha256_Sum :: "string \<Rightarrow> string"
  base64_StdEncoding_EncodeToString :: "string \<Rightarrow> string"
  os_Open :: "string \<Rightarrow> error + string"
  html_Parse :: "string \<Rightarrow> error + Node"

text \<open>\<^verbatim>\<open>slices.Contains\<close>, \<^verbatim>\<open>strings.HasPrefix\<close> and \<^verbatim>\<open>strings.Join\<close>.\<close>

definition slices_Contains :: "string list \<Rightarrow> string \<Rightarrow> bool" where
  "slices_Contains xs v = (v \<in> set xs)"

definition strings_HasPrefix :: "string \<Rightarrow> string \<Rightarrow> bool" where
  "strings_HasPrefix s prefix =
     (length prefix \<le> length s \<and> take (length prefix) s = prefix)"

fun strings_Join :: "string list \<Rightarrow> string \<Rightarrow> string" where
  "strings_Join [] sep = []"
| "strings_Join [e] sep = e"
| "strings_Join (e # es) sep = e @ sep @ strings_Join es sep"

section \<open>The operations\<close>

subsection \<open>String\<close>

text \<open>
  The \<^verbatim>\<open>for\<close> loop over \<^verbatim>\<open>Hashes\<close> appends one quoted entry per iteration to
  \<^verbatim>\<open>srcs\<close>.
\<close>

fun String_hashes :: "string list \<Rightarrow> string list \<Rightarrow> string list" where
  "String_hashes srcs [] = srcs"
| "String_hashes srcs (hash # hashes) =
     String_hashes (srcs @ [[CHR 0x27] @ hash @ [CHR 0x27]]) hashes"

definition String :: "ScriptSrc \<Rightarrow> string" where
  "String scriptSrc =
     (let srcs = [];
          srcs = (if Self scriptSrc then srcs @ [[CHR 0x27] @ ''self'' @ [CHR 0x27]] else srcs);
          srcs = String_hashes srcs (Hashes scriptSrc);
          srcs = srcs @ Hosts scriptSrc;
          srcs = srcs @ Others scriptSrc
      in strings_Join srcs '' '')"

subsection \<open>AddInline\<close>

definition AddInline :: "golib \<Rightarrow> ScriptSrc \<Rightarrow> string \<Rightarrow> panic + ScriptSrc" where
  "AddInline L scriptSrc content =
     (case (if DefaultHashAlgorithm scriptSrc = Sha512 then
              Inr (''sha512-'' @ base64_StdEncoding_EncodeToString L (sha512_Sum L content))
            else if DefaultHashAlgorithm scriptSrc = Sha256 then
              Inr (''sha256-'' @ base64_StdEncoding_EncodeToString L (sha256_Sum L content))
            else Inl (InvalidHashAlgorithm (DefaultHashAlgorithm scriptSrc))) of
        Inl p \<Rightarrow> Inl p
      | Inr hash \<Rightarrow>
          Inr (if \<not> slices_Contains (Hashes scriptSrc) hash
               then scriptSrc\<lparr>Hashes := Hashes scriptSrc @ [hash]\<rparr>
               else scriptSrc))"

subsection \<open>AddSrc\<close>

text \<open>The result is the returned error (\<open>None\<close> is \<^verbatim>\<open>nil\<close>) and the receiver afterwards.\<close>

definition AddSrc :: "golib \<Rightarrow> ScriptSrc \<Rightarrow> string \<Rightarrow> error option \<times> ScriptSrc" where
  "AddSrc L scriptSrc srcString =
     (case url_Parse L srcString of
        Inl err \<Rightarrow> (Some (FailedToParseScriptSrc srcString err), scriptSrc)
      | Inr src \<Rightarrow>
          if Scheme src = ''http'' then (Some (InsecureScriptSrc srcString), scriptSrc)
          else if Scheme src = ''https'' then
            (let host = ''https://'' @ Host src
             in (None, if \<not> slices_Contains (Hosts scriptSrc) host
                       then scriptSrc\<lparr>Hosts := Hosts scriptSrc @ [host]\<rparr>
                       else scriptSrc))
          else if Scheme src = '''' then (None, scriptSrc\<lparr>Self := True\<rparr>)
          else (Some (FailedToUnderstandScriptSrc srcString), scriptSrc))"

subsection \<open>AddFromHTML\<close>

text \<open>
  The loop over the attributes of a script element. It carries \<^verbatim>\<open>hasSrc\<close> and the
  receiver; the value \<^verbatim>\<open>AddSrc\<close> returns is not bound to anything in the source, so
  only its effect on the receiver is kept. A first component \<open>Some e\<close> is the
  \<^verbatim>\<open>return\<close> from inside the loop.
\<close>

fun script_attrs :: "golib \<Rightarrow> ScriptSrc \<Rightarrow> bool \<Rightarrow> Attribute list
                     \<Rightarrow> error option \<times> bool \<times> ScriptSrc" where
  "script_attrs L scriptSrc hasSrc [] = (None, hasSrc, scriptSrc)"
| "script_attrs L scriptSrc hasSrc (attr # attrs) =
     (if Key attr = ''src'' then
        (if hasSrc then (Some (SecondSrcAttribute (Val attr)), hasSrc, scriptSrc)
         else script_attrs L (snd (AddSrc L scriptSrc (Val attr))) True attrs)
      else script_attrs L scriptSrc hasSrc attrs)"

text \<open>The loop over the attributes of any other node, run when \<^verbatim>\<open>includeEventHandlers\<close>.\<close>

fun handler_attrs :: "golib \<Rightarrow> ScriptSrc \<Rightarrow> Attribute list \<Rightarrow> panic + ScriptSrc" where
  "handler_attrs L scriptSrc [] = Inr scriptSrc"
| "handler_attrs L scriptSrc (attr # attrs) =
     (if strings_HasPrefix (Key attr) ''on'' then
        (case AddInline L scriptSrc (Val attr) of
           Inl p \<Rightarrow> Inl p
         | Inr scriptSrc' \<Rightarrow> handler_attrs L scriptSrc' attrs)
      else handler_attrs L scriptSrc attrs)"

text \<open>
  \<open>AddFromHTML\<close> and the loop \<^verbatim>\<open>for c := n.FirstChild; c != nil; c = c.NextSibling\<close>
  (\<open>AddFromHTML_children\<close>, given the current \<^verbatim>\<open>c\<close>). The result is a panic, or the
  returned error with the receiver as the call leaves it.
\<close>

fun AddFromHTML :: "golib \<Rightarrow> ScriptSrc \<Rightarrow> Node \<Rightarrow> bool \<Rightarrow> panic + (error option \<times> ScriptSrc)"
and AddFromHTML_children ::
      "golib \<Rightarrow> ScriptSrc \<Rightarrow> Node option \<Rightarrow> bool \<Rightarrow> panic + (error option \<times> ScriptSrc)" where
  "AddFromHTML L scriptSrc (Node ty data attrs firstChild nextSibling) includeEventHandlers =
     (if ty = ElementNode \<and> data = ''script'' then
        (case script_attrs L scriptSrc False attrs of
           (Some err, hasSrc, scriptSrc') \<Rightarrow> Inr (Some err, scriptSrc')
         | (None, hasSrc, scriptSrc') \<Rightarrow>
             if hasSrc then Inr (None, scriptSrc')
             else (case firstChild of
                     None \<Rightarrow> Inr (Some NoSrcNoContent, scriptSrc')
                   | Some content \<Rightarrow>
                       if Type content \<noteq> TextNode then Inr (Some ChildNotTextNode, scriptSrc')
                       else if NextSibling content \<noteq> None \<or> FirstChild content \<noteq> None
                         then Inr (Some MultipleChildren, scriptSrc')
                       else (case AddInline L scriptSrc' (Data content) of
                               Inl p \<Rightarrow> Inl p
                             | Inr scriptSrc'' \<Rightarrow> Inr (None, scriptSrc''))))
      else
        (case (if includeEventHandlers then handler_attrs L scriptSrc attrs
               else Inr scriptSrc) of
           Inl p \<Rightarrow> Inl p
         | Inr scriptSrc' \<Rightarrow> AddFromHTML_children L scriptSrc' firstChild includeEventHandlers))"
| "AddFromHTML_children L scriptSrc None includeEventHandlers = Inr (None, scriptSrc)"
| "AddFromHTML_children L scriptSrc (Some (Node ty data attrs firstChild nextSibling))
       includeEventHandlers =
     (case AddFromHTML L scriptSrc (Node ty data attrs firstChild nextSibling)
             includeEventHandlers of
        Inl p \<Rightarrow> Inl p
      | Inr (Some err, scriptSrc') \<Rightarrow> Inr (Some err, scriptSrc')
      | Inr (None, scriptSrc') \<Rightarrow>
          AddFromHTML_children L scriptSrc' nextSibling includeEventHandlers)"

subsection \<open>AddFromHTMLFile and ScriptSrcFromHTMLFiles\<close>

definition AddFromHTMLFile ::
    "golib \<Rightarrow> ScriptSrc \<Rightarrow> string \<Rightarrow> bool \<Rightarrow> panic + (error option \<times> ScriptSrc)" where
  "AddFromHTMLFile L scriptSrc path includeEventHandlers =
     (case os_Open L path of
        Inl err \<Rightarrow> Inr (Some err, scriptSrc)
      | Inr f \<Rightarrow>
          (case html_Parse L f of
             Inl err \<Rightarrow> Inr (Some (FailedToParseHTML path err), scriptSrc)
           | Inr doc \<Rightarrow>
               (case AddFromHTML L scriptSrc doc includeEventHandlers of
                  Inl p \<Rightarrow> Inl p
                | Inr (Some err, scriptSrc') \<Rightarrow> Inr (Some (FailedToProcess path err), scriptSrc')
                | Inr (None, scriptSrc') \<Rightarrow> Inr (None, scriptSrc'))))"

text \<open>The loop over \<^verbatim>\<open>paths\<close>, carrying the receiver and the slice \<^verbatim>\<open>errors\<close>.\<close>

fun ScriptSrcFromHTMLFiles_loop ::
    "golib \<Rightarrow> ScriptSrc \<Rightarrow> error list \<Rightarrow> string list \<Rightarrow> bool
       \<Rightarrow> panic + (ScriptSrc \<times> error list)" where
  "ScriptSrcFromHTMLFiles_loop L scriptSrc errors [] includeEventHandlers =
     Inr (scriptSrc, errors)"
| "ScriptSrcFromHTMLFiles_loop L scriptSrc errors (path # paths) includeEventHandlers =
     (case AddFromHTMLFile L scriptSrc path includeEventHandlers of
        Inl p \<Rightarrow> Inl p
      | Inr (Some err, scriptSrc') \<Rightarrow>
          ScriptSrcFromHTMLFiles_loop L scriptSrc' (errors @ [err]) paths includeEventHandlers
      | Inr (None, scriptSrc') \<Rightarrow>
          ScriptSrcFromHTMLFiles_loop L scriptSrc' errors paths includeEventHandlers)"

text \<open>The pair returned is \<^verbatim>\<open>(*ScriptSrc, error)\<close>, \<open>None\<close> for \<^verbatim>\<open>nil\<close>.\<close>

definition ScriptSrcFromHTMLFiles ::
    "golib \<Rightarrow> string list \<Rightarrow> bool \<Rightarrow> panic + (ScriptSrc option \<times> error option)" where
  "ScriptSrcFromHTMLFiles L paths includeEventHandlers =
     (case ScriptSrcFromHTMLFiles_loop L ScriptSrc_zero [] paths includeEventHandlers of
        Inl p \<Rightarrow> Inl p
      | Inr (scriptSrc, errors) \<Rightarrow>
          Inr (if length errors = 0 then (Some scriptSrc, None)
               else if length errors = 1 then (None, Some (errors ! 0))
               else (None, Some (MultipleErrors errors))))"

section \<open>Notions of the specification\<close>

text \<open>
  The digest token in the specification's words: the hash of the content under the
  algorithm, base64 encoded, after the algorithm's canonical name and a hyphen. It is
  meant for the two supported algorithms only.
\<close>

definition canonical_name :: "HashAlgorithm \<Rightarrow> string" where
  "canonical_name alg = (if alg = Sha512 then ''sha512'' else ''sha256'')"

definition digest :: "golib \<Rightarrow> string \<Rightarrow> HashAlgorithm \<Rightarrow> string" where
  "digest L content alg =
     canonical_name alg @ ''-'' @
     base64_StdEncoding_EncodeToString L
       ((if alg = Sha512 then sha512_Sum L else sha256_Sum L) content)"

text \<open>The algorithm values the specification calls supported.\<close>

definition supported :: "HashAlgorithm \<Rightarrow> bool" where
  "supported alg = (alg = Sha512 \<or> alg = Sha256)"

text \<open>Insertion into a sequence without duplicates that keeps first-seen order.\<close>

definition insert_absent :: "string \<Rightarrow> string list \<Rightarrow> string list" where
  "insert_absent x xs = (if x \<in> set xs then xs else xs @ [x])"

text \<open>The three errors a script element without \<^verbatim>\<open>src\<close> can fail with.\<close>

definition InvalidInlineScript :: "error \<Rightarrow> bool" where
  "InvalidInlineScript e = (e = NoSrcNoContent \<or> e = ChildNotTextNode \<or> e = MultipleChildren)"

text \<open>
  What each file of a batch leaves behind when every file is processed in turn, each
  one starting from the policy the previous one left, failed or not.
\<close>

fun file_outcomes ::
    "golib \<Rightarrow> bool \<Rightarrow> ScriptSrc \<Rightarrow> string list \<Rightarrow> (error option \<times> ScriptSrc) list" where
  "file_outcomes L b s [] = []"
| "file_outcomes L b s (path # paths) =
     (case AddFromHTMLFile L s path b of
        Inl p \<Rightarrow> []
      | Inr (e, s') \<Rightarrow> (e, s') # file_outcomes L b s' paths)"

definition collected_errors :: "(error option \<times> ScriptSrc) list \<Rightarrow> error list" where
  "collected_errors outs = List.map_filter fst outs"

definition final_policy :: "ScriptSrc \<Rightarrow> (error option \<times> ScriptSrc) list \<Rightarrow> ScriptSrc" where
  "final_policy s outs = (case rev outs of [] \<Rightarrow> s | out # _ \<Rightarrow> snd out)"

section \<open>A library instance for worked examples\<close>

text \<open>
  The examples below need library functions that compute. \<open>example_url_Parse\<close> lists
  what \<^verbatim>\<open>url.Parse\<close> returns on a handful of references; the two hashes and the
  encoding are kept symbolic; the file system holds three small documents, given as the
  trees \<^verbatim>\<open>html.Parse\<close> builds for them, and a read of anything else fails.
\<close>

definition mkURL :: "string \<Rightarrow> string \<Rightarrow> string \<Rightarrow> URL" where
  "mkURL scheme host path =
     \<lparr>Scheme = scheme, Host = host, Path = path, RawQuery = [], Fragment = []\<rparr>"

definition example_url_Parse :: "string \<Rightarrow> error + URL" where
  "example_url_Parse r =
     (if r = ''foo.js'' then Inr (mkURL [] [] ''foo.js'')
      else if r = ''//cdn.example.com/x.js'' then Inr (mkURL [] ''cdn.example.com'' ''/x.js'')
      else if r = ''https://cdn.example.com/a.js'' then
        Inr (mkURL ''https'' ''cdn.example.com'' ''/a.js'')
      else if r = ''https://cdn.example.com:8443/b.js?v=2#top'' then
        Inr \<lparr>Scheme = ''https'', Host = ''cdn.example.com:8443'', Path = ''/b.js'',
             RawQuery = ''v=2'', Fragment = ''top''\<rparr>
      else if r = ''http://example.com/a.js'' then Inr (mkURL ''http'' ''example.com'' ''/a.js'')
      else if r = ''ftp://example.com/a.js'' then Inr (mkURL ''ftp'' ''example.com'' ''/a.js'')
      else Inl (LibError ''missing protocol scheme''))"

definition src_attr :: "string \<Rightarrow> Attribute" where
  "src_attr v = \<lparr>Namespace = [], Key = ''src'', Val = v\<rparr>"

definition element :: "string \<Rightarrow> Attribute list \<Rightarrow> Node option \<Rightarrow> Node option \<Rightarrow> Node" where
  "element tag attrs firstChild nextSibling = Node ElementNode tag attrs firstChild nextSibling"

definition text_node :: "string \<Rightarrow> Node" where
  "text_node content = Node TextNode content [] None None"

text \<open>A document with the one element \<open>script\<close> in its head and an empty body.\<close>

definition document :: "Node \<Rightarrow> Node" where
  "document script =
     Node DocumentNode [] []
       (Some (element ''html'' []
          (Some (element ''head'' []
             (Some script)
             (Some (element ''body'' [] None None))))
          None))
       None"

definition example_os_Open :: "string \<Rightarrow> error + string" where
  "example_os_Open path =
     (if path = ''just-self.html'' then Inr ''<script src=foo.js></script>''
      else if path = ''inline.html'' then Inr ''<script>go()</script>''
      else if path = ''empty-script.html'' then Inr ''<script></script>''
      else Inl (LibError (''open '' @ path @ '': no such file or directory'')))"

definition example_html_Parse :: "string \<Rightarrow> error + Node" where
  "example_html_Parse f =
     (if f = ''<script src=foo.js></script>'' then
        Inr (document (element ''script'' [src_attr ''foo.js''] None None))
      else if f = ''<script>go()</script>'' then
        Inr (document (element ''script'' [] (Some (text_node ''go()'')) None))
      else if f = ''<script></script>'' then
        Inr (document (element ''script'' [] None None))
      else Inl (LibError ''unexpected EOF''))"

definition example_lib :: golib where
  "example_lib =
     \<lparr>url_Parse = example_url_Parse,
      sha512_Sum = (\<lambda>content. ''SHA512('' @ content @ '')''),
      sha256_Sum = (\<lambda>content. ''SHA256('' @ content @ '')''),
      base64_StdEncoding_EncodeToString = (\<lambda>bytes. ''BASE64('' @ bytes @ '')''),
      os_Open = example_os_Open,
      html_Parse = example_html_Parse\<rparr>"

section \<open>Library helpers\<close>

lemma Sha_distinct: "Sha512 \<noteq> Sha256"
  by (simp add: Sha512_def Sha256_def)

lemmas example_simps = example_lib_def example_url_Parse_def mkURL_def ScriptSrc_zero_def
  insert_absent_def

lemma String_hashes_append:
  "String_hashes srcs hashes = srcs @ map (\<lambda>hash. [CHR 0x27] @ hash @ [CHR 0x27]) hashes"
  by (induction hashes arbitrary: srcs) simp_all

section \<open>Formatting\<close>

text \<open>
  C3. \<open>String\<close> joins with single spaces, in this order: the token \<open>'self'\<close> when
  \<open>Self\<close> holds, every entry of \<open>Hashes\<close> in order between single quotes, every entry
  of \<open>Hosts\<close> in order as it is, every entry of \<open>Others\<close> in order as it is. A policy
  with \<open>Self\<close> false and the three sequences empty formats to the empty string.
\<close>

theorem String_format:
  "String scriptSrc =
     strings_Join
       ((if Self scriptSrc then [[CHR 0x27] @ ''self'' @ [CHR 0x27]] else [])
        @ map (\<lambda>hash. [CHR 0x27] @ hash @ [CHR 0x27]) (Hashes scriptSrc)
        @ Hosts scriptSrc
        @ Others scriptSrc) '' ''
   \<and> String \<lparr>Self = False, Hashes = [], DefaultHashAlgorithm = alg, Hosts = [], Others = []\<rparr>
       = []"
  by (simp add: String_def String_hashes_append)

theorem String_format_witness:
  "String \<lparr>Self = True, Hashes = [''sha512-AAA='', ''sha512-BBB=''], DefaultHashAlgorithm = 0,
           Hosts = [''https://challenges.cloudflare.com''], Others = [''https:'']\<rparr>
     = [CHR 0x27] @ ''self'' @ [CHR 0x27] @ '' '' @ [CHR 0x27] @ ''sha512-AAA='' @ [CHR 0x27]
       @ '' '' @ [CHR 0x27] @ ''sha512-BBB='' @ [CHR 0x27]
       @ '' https://challenges.cloudflare.com https:''
 \<and> String ScriptSrc_zero = []"
  using String_format [of "\<lparr>Self = True, Hashes = [''sha512-AAA='', ''sha512-BBB=''],
      DefaultHashAlgorithm = 0, Hosts = [''https://challenges.cloudflare.com''],
      Others = [''https:'']\<rparr>" 0]
  by (simp add: ScriptSrc_zero_def)

section \<open>Classification of a reference\<close>

lemma AddSrc_parse_failure:
  "url_Parse L r = Inl err \<Longrightarrow> AddSrc L s r = (Some (FailedToParseScriptSrc r err), s)"
  by (simp add: AddSrc_def)

lemma AddSrc_http:
  "url_Parse L r = Inr u \<Longrightarrow> Scheme u = ''http'' \<Longrightarrow>
   AddSrc L s r = (Some (InsecureScriptSrc r), s)"
  by (simp add: AddSrc_def)

lemma AddSrc_https:
  "url_Parse L r = Inr u \<Longrightarrow> Scheme u = ''https'' \<Longrightarrow>
   AddSrc L s r = (None, s\<lparr>Hosts := insert_absent (''https://'' @ Host u) (Hosts s)\<rparr>)"
  by (simp add: AddSrc_def slices_Contains_def insert_absent_def)

lemma AddSrc_no_scheme:
  "url_Parse L r = Inr u \<Longrightarrow> Scheme u = [] \<Longrightarrow> AddSrc L s r = (None, s\<lparr>Self := True\<rparr>)"
  by (simp add: AddSrc_def)

lemma AddSrc_other_scheme:
  "url_Parse L r = Inr u \<Longrightarrow> Scheme u \<noteq> ''http'' \<Longrightarrow> Scheme u \<noteq> ''https'' \<Longrightarrow>
   Scheme u \<noteq> [] \<Longrightarrow> AddSrc L s r = (Some (FailedToUnderstandScriptSrc r), s)"
  by (simp add: AddSrc_def)

text \<open>
  C2. \<open>AddSrc\<close> follows the decision table. With no scheme it sets \<open>Self\<close> and returns no
  error. With scheme https it returns no error and \<open>Hosts\<close> gains \<open>https://\<close> followed by
  the host (with its port) at the end, unless that entry is there already; path, query and
  fragment play no part. With scheme http it returns the insecure-source error, with any
  other scheme the unsupported-source error, and when the reference does not parse the
  error that wraps the parser's; in these three cases the policy stays as it was.
\<close>

theorem AddSrc_decision_table:
  "(url_Parse L r = Inr u \<and> Scheme u = [] \<longrightarrow> AddSrc L s r = (None, s\<lparr>Self := True\<rparr>))
 \<and> (url_Parse L r
       = Inr \<lparr>Scheme = ''https'', Host = h, Path = p, RawQuery = q, Fragment = f\<rparr> \<longrightarrow>
       AddSrc L s r = (None, s\<lparr>Hosts := insert_absent (''https://'' @ h) (Hosts s)\<rparr>))
 \<and> (url_Parse L r = Inr u \<and> Scheme u = ''http'' \<longrightarrow>
       AddSrc L s r = (Some (InsecureScriptSrc r), s))
 \<and> (url_Parse L r = Inr u \<and> Scheme u \<noteq> [] \<and> Scheme u \<noteq> ''https'' \<and> Scheme u \<noteq> ''http'' \<longrightarrow>
       AddSrc L s r = (Some (FailedToUnderstandScriptSrc r), s))
 \<and> (url_Parse L r = Inl err \<longrightarrow> AddSrc L s r = (Some (FailedToParseScriptSrc r err), s))"
  using AddSrc_https
    [of L r "\<lparr>Scheme = ''https'', Host = h, Path = p, RawQuery = q, Fragment = f\<rparr>" s]
  by (simp add: AddSrc_parse_failure AddSrc_http AddSrc_no_scheme AddSrc_other_scheme)

theorem AddSrc_decision_table_witness:
  "AddSrc example_lib ScriptSrc_zero ''foo.js'' = (None, ScriptSrc_zero\<lparr>Self := True\<rparr>)
 \<and> AddSrc example_lib (ScriptSrc_zero\<lparr>Hosts := [''https://a.example'']\<rparr>)
       ''https://cdn.example.com:8443/b.js?v=2#top''
     = (None, ScriptSrc_zero
          \<lparr>Hosts := [''https://a.example'', ''https://cdn.example.com:8443'']\<rparr>)
 \<and> AddSrc example_lib
       (ScriptSrc_zero\<lparr>Hosts := [''https://cdn.example.com'', ''https://a.example'']\<rparr>)
       ''https://cdn.example.com/a.js''
     = (None, ScriptSrc_zero\<lparr>Hosts := [''https://cdn.example.com'', ''https://a.example'']\<rparr>)
 \<and> AddSrc example_lib ScriptSrc_zero ''http://example.com/a.js''
     = (Some (InsecureScriptSrc ''http://example.com/a.js''), ScriptSrc_zero)
 \<and> AddSrc example_lib ScriptSrc_zero ''ftp://example.com/a.js''
     = (Some (FailedToUnderstandScriptSrc ''ftp://example.com/a.js''), ScriptSrc_zero)
 \<and> AddSrc example_lib ScriptSrc_zero '':''
     = (Some (FailedToParseScriptSrc '':'' (LibError ''missing protocol scheme'')),
        ScriptSrc_zero)"
  using
    AddSrc_decision_table [where L = example_lib and r = "''foo.js''"
      and u = "mkURL [] [] ''foo.js''" and s = ScriptSrc_zero]
    AddSrc_decision_table [where L = example_lib
      and r = "''https://cdn.example.com:8443/b.js?v=2#top''"
      and h = "''cdn.example.com:8443''" and p = "''/b.js''" and q = "''v=2''" and f = "''top''"
      and s = "ScriptSrc_zero\<lparr>Hosts := [''https://a.example'']\<rparr>"]
    AddSrc_decision_table [where L = example_lib
      and r = "''https://cdn.example.com/a.js''"
      and h = "''cdn.example.com''" and p = "''/a.js''" and q = "[]" and f = "[]"
      and s = "ScriptSrc_zero\<lparr>Hosts := [''https://cdn.example.com'', ''https://a.example'']\<rparr>"]
    AddSrc_decision_table [where L = example_lib and r = "''http://example.com/a.js''"
      and u = "mkURL ''http'' ''example.com'' ''/a.js''" and s = ScriptSrc_zero]
    AddSrc_decision_table [where L = example_lib and r = "''ftp://example.com/a.js''"
      and u = "mkURL ''ftp'' ''example.com'' ''/a.js''" and s = ScriptSrc_zero]
    AddSrc_decision_table [where L = example_lib and r = "'':''"
      and err = "LibError ''missing protocol scheme''" and s = ScriptSrc_zero]
  by (simp add: example_simps)

text \<open>
  C7. A reference whose scheme is http makes \<open>AddSrc\<close> return the insecure-source error
  and leaves the whole policy, \<open>Self\<close>, \<open>Hashes\<close>, \<open>Hosts\<close> and \<open>Others\<close>, as it was.
\<close>

theorem AddSrc_http_unchanged:
  "url_Parse L r = Inr u \<Longrightarrow> Scheme u = ''http'' \<Longrightarrow>
     fst (AddSrc L s r) = Some (InsecureScriptSrc r) \<and> snd (AddSrc L s r) = s"
  by (simp add: AddSrc_http)

theorem AddSrc_http_unchanged_witness:
  "fst (AddSrc example_lib (ScriptSrc_zero\<lparr>Hosts := [''https://a.example'']\<rparr>)
          ''http://example.com/a.js'')
     = Some (InsecureScriptSrc ''http://example.com/a.js'')
   \<and> snd (AddSrc example_lib (ScriptSrc_zero\<lparr>Hosts := [''https://a.example'']\<rparr>)
          ''http://example.com/a.js'')
     = ScriptSrc_zero\<lparr>Hosts := [''https://a.example'']\<rparr>"
  using AddSrc_http_unchanged [of example_lib "''http://example.com/a.js''"
      "mkURL ''http'' ''example.com'' ''/a.js''"
      "ScriptSrc_zero\<lparr>Hosts := [''https://a.example'']\<rparr>"]
  by (simp add: example_simps)

text \<open>
  C10. A reference that parses with an empty scheme makes \<open>AddSrc\<close> set \<open>Self\<close>, return
  no error and leave \<open>Hosts\<close> alone, whatever host the parsed reference names: the host
  of a protocol-relative reference such as \<open>//cdn.example.com/x.js\<close> is not listed.
\<close>

theorem AddSrc_schemeless_self:
  "url_Parse L r = Inr u \<Longrightarrow> Scheme u = [] \<Longrightarrow>
     AddSrc L s r = (None, s\<lparr>Self := True\<rparr>)
     \<and> Self (snd (AddSrc L s r)) \<and> Hosts (snd (AddSrc L s r)) = Hosts s"
  by (simp add: AddSrc_no_scheme)

theorem AddSrc_schemeless_self_witness:
  "url_Parse example_lib ''//cdn.example.com/x.js''
     = Inr (mkURL [] ''cdn.example.com'' ''/x.js'')
   \<and> Host (mkURL [] ''cdn.example.com'' ''/x.js'') \<noteq> []
   \<and> AddSrc example_lib ScriptSrc_zero ''//cdn.example.com/x.js''
       = (None, ScriptSrc_zero\<lparr>Self := True\<rparr>)
   \<and> Hosts (snd (AddSrc example_lib ScriptSrc_zero ''//cdn.example.com/x.js'')) = []"
  using AddSrc_schemeless_self [of example_lib "''//cdn.example.com/x.js''"
      "mkURL [] ''cdn.example.com'' ''/x.js''" ScriptSrc_zero]
  by (simp add: example_simps)

section \<open>Hashing an inline script\<close>

lemma count_list_distinct: "distinct xs \<Longrightarrow> x \<in> set xs \<Longrightarrow> count_list xs x = 1"
  by (induction xs) auto

lemma count_list_insert_absent:
  "distinct xs \<Longrightarrow> count_list (insert_absent x xs) x = 1"
  by (simp add: insert_absent_def count_list_distinct)

lemma distinct_insert_absent: "distinct xs \<Longrightarrow> distinct (insert_absent x xs)"
  by (simp add: insert_absent_def)

lemma insert_absent_idem: "insert_absent x (insert_absent x xs) = insert_absent x xs"
  by (simp add: insert_absent_def)

lemma AddInline_Sha512:
  "DefaultHashAlgorithm s = Sha512 \<Longrightarrow>
   AddInline L s content =
     Inr (s\<lparr>Hashes := insert_absent
            (''sha512-'' @ base64_StdEncoding_EncodeToString L (sha512_Sum L content))
            (Hashes s)\<rparr>)"
  by (simp add: AddInline_def slices_Contains_def insert_absent_def)

lemma AddInline_Sha256:
  "DefaultHashAlgorithm s = Sha256 \<Longrightarrow>
   AddInline L s content =
     Inr (s\<lparr>Hashes := insert_absent
            (''sha256-'' @ base64_StdEncoding_EncodeToString L (sha256_Sum L content))
            (Hashes s)\<rparr>)"
  using Sha_distinct by (simp add: AddInline_def slices_Contains_def insert_absent_def)

lemma AddInline_digest:
  "DefaultHashAlgorithm s = Sha512 \<or> DefaultHashAlgorithm s = Sha256 \<Longrightarrow>
   AddInline L s content =
     Inr (s\<lparr>Hashes := insert_absent (digest L content (DefaultHashAlgorithm s)) (Hashes s)\<rparr>)"
  using Sha_distinct
  by (auto simp add: AddInline_Sha512 AddInline_Sha256 digest_def canonical_name_def)

lemma AddInline_invalid:
  "DefaultHashAlgorithm s \<noteq> Sha512 \<Longrightarrow> DefaultHashAlgorithm s \<noteq> Sha256 \<Longrightarrow>
   AddInline L s content = Inl (InvalidHashAlgorithm (DefaultHashAlgorithm s))"
  by (simp add: AddInline_def)

text \<open>
  C8. With \<open>DefaultHashAlgorithm\<close> one of \<open>Sha512\<close> and \<open>Sha256\<close>, \<open>AddInline\<close> does
  not panic, and the token it inserts is the algorithm's name, a hyphen, and the standard
  base64 encoding of the hash of the content, the content being hashed as it was given.
  That token is the digest of the specification.
\<close>

theorem AddInline_token:
  "(DefaultHashAlgorithm s = Sha512 \<longrightarrow>
      AddInline L s content =
        Inr (s\<lparr>Hashes := insert_absent
               (''sha512-'' @ base64_StdEncoding_EncodeToString L (sha512_Sum L content))
               (Hashes s)\<rparr>))
 \<and> (DefaultHashAlgorithm s = Sha256 \<longrightarrow>
      AddInline L s content =
        Inr (s\<lparr>Hashes := insert_absent
               (''sha256-'' @ base64_StdEncoding_EncodeToString L (sha256_Sum L content))
               (Hashes s)\<rparr>))
 \<and> (DefaultHashAlgorithm s = Sha512 \<or> DefaultHashAlgorithm s = Sha256 \<longrightarrow>
      AddInline L s content =
        Inr (s\<lparr>Hashes := insert_absent (digest L content (DefaultHashAlgorithm s))
                            (Hashes s)\<rparr>)
      \<and> (\<forall>p. AddInline L s content \<noteq> Inl p))"
  using AddInline_digest [of s L content]
  by (simp add: AddInline_Sha512 AddInline_Sha256)

theorem AddInline_token_witness:
  "AddInline example_lib ScriptSrc_zero '' go() ''
     = Inr (ScriptSrc_zero\<lparr>Hashes := [''sha512-BASE64(SHA512( go() ))'']\<rparr>)
 \<and> AddInline example_lib (ScriptSrc_zero\<lparr>DefaultHashAlgorithm := Sha256\<rparr>) '' go() ''
     = Inr (ScriptSrc_zero\<lparr>DefaultHashAlgorithm := Sha256,
                            Hashes := [''sha256-BASE64(SHA256( go() ))'']\<rparr>)"
  using AddInline_token [of ScriptSrc_zero example_lib "'' go() ''"]
    AddInline_token [of "ScriptSrc_zero\<lparr>DefaultHashAlgorithm := Sha256\<rparr>" example_lib
      "'' go() ''"]
  by (simp add: example_simps Sha512_def Sha256_def)

section \<open>Adding the same thing twice\<close>

text \<open>
  C4. With a supported algorithm, a second \<open>AddInline\<close> of the same content changes
  nothing, and on a policy whose \<open>Hashes\<close> hold no duplicates the token of that content
  is then in \<open>Hashes\<close> exactly once. A second \<open>AddSrc\<close> of the same https reference
  changes nothing, and on a policy whose \<open>Hosts\<close> hold no duplicates the host entry of
  that reference is then in \<open>Hosts\<close> exactly once.
\<close>

theorem Add_idempotent:
  "(DefaultHashAlgorithm s = Sha512 \<or> DefaultHashAlgorithm s = Sha256 \<longrightarrow>
      (\<exists>s1. AddInline L s content = Inr s1 \<and> AddInline L s1 content = Inr s1
            \<and> (distinct (Hashes s) \<longrightarrow>
                 count_list (Hashes s1) (digest L content (DefaultHashAlgorithm s)) = 1)))
 \<and> (url_Parse L r = Inr u \<and> Scheme u = ''https'' \<longrightarrow>
      (\<exists>s1. AddSrc L s r = (None, s1) \<and> AddSrc L s1 r = (None, s1)
            \<and> (distinct (Hosts s) \<longrightarrow>
                 count_list (Hosts s1) (''https://'' @ Host u) = 1)))"
  by (auto simp add: AddInline_digest AddSrc_https insert_absent_idem count_list_insert_absent)

theorem Add_idempotent_witness:
  "AddInline example_lib ScriptSrc_zero ''go()''
     = Inr (ScriptSrc_zero\<lparr>Hashes := [''sha512-BASE64(SHA512(go()))'']\<rparr>)
 \<and> AddInline example_lib (ScriptSrc_zero\<lparr>Hashes := [''sha512-BASE64(SHA512(go()))'']\<rparr>)
       ''go()''
     = Inr (ScriptSrc_zero\<lparr>Hashes := [''sha512-BASE64(SHA512(go()))'']\<rparr>)
 \<and> AddSrc example_lib ScriptSrc_zero ''https://cdn.example.com/a.js''
     = (None, ScriptSrc_zero\<lparr>Hosts := [''https://cdn.example.com'']\<rparr>)
 \<and> AddSrc example_lib (ScriptSrc_zero\<lparr>Hosts := [''https://cdn.example.com'']\<rparr>)
       ''https://cdn.example.com/a.js''
     = (None, ScriptSrc_zero\<lparr>Hosts := [''https://cdn.example.com'']\<rparr>)
 \<and> count_list (Hashes (ScriptSrc_zero\<lparr>Hashes := [''sha512-BASE64(SHA512(go()))'']\<rparr>))
       (digest example_lib ''go()'' Sha512) = 1
 \<and> count_list (Hosts (ScriptSrc_zero\<lparr>Hosts := [''https://cdn.example.com'']\<rparr>))
       ''https://cdn.example.com'' = 1"
  using Add_idempotent [of ScriptSrc_zero example_lib "''go()''"
      "''https://cdn.example.com/a.js''" "mkURL ''https'' ''cdn.example.com'' ''/a.js''"]
    AddInline_Sha512 [of ScriptSrc_zero example_lib "''go()''"]
    AddSrc_https [of example_lib "''https://cdn.example.com/a.js''"
      "mkURL ''https'' ''cdn.example.com'' ''/a.js''" ScriptSrc_zero]
  by (auto simp add: example_simps Sha512_def Sha256_def)

section \<open>Script elements\<close>

lemma script_attrs_skip:
  "\<forall>a\<in>set pre. Key a \<noteq> ''src'' \<Longrightarrow>
   script_attrs L s hasSrc (pre @ rest) = script_attrs L s hasSrc rest"
  by (induction pre) simp_all

lemma script_attrs_no_src:
  "\<forall>a\<in>set attrs. Key a \<noteq> ''src'' \<Longrightarrow> script_attrs L s hasSrc attrs = (None, hasSrc, s)"
  using script_attrs_skip [of attrs L s hasSrc "[]"] by simp

lemma script_attrs_one_src:
  assumes "\<forall>a\<in>set pre. Key a \<noteq> ''src''" and "Key a = ''src''"
    and "\<forall>a\<in>set post. Key a \<noteq> ''src''"
  shows "script_attrs L s False (pre @ a # post) = (None, True, snd (AddSrc L s (Val a)))"
  using assms by (simp add: script_attrs_skip script_attrs_no_src)

lemma script_attrs_two_src:
  assumes "\<forall>a\<in>set pre. Key a \<noteq> ''src''" and "Key x = ''src''"
    and "\<forall>a\<in>set mid. Key a \<noteq> ''src''" and "Key y = ''src''"
  shows "script_attrs L s False (pre @ x # mid @ y # rest)
           = (Some (SecondSrcAttribute (Val y)), True, snd (AddSrc L s (Val x)))"
  using assms by (simp add: script_attrs_skip)

text \<open>
  A script element with exactly one \<open>src\<close> attribute: the walk returns no error, whatever
  \<open>AddSrc\<close> returned, and the policy is the one \<open>AddSrc\<close> left. The children are not
  visited.
\<close>

lemma AddFromHTML_one_src:
  assumes "\<forall>a\<in>set pre. Key a \<noteq> ''src''" and "Key a = ''src''"
    and "\<forall>a\<in>set post. Key a \<noteq> ''src''"
  shows "AddFromHTML L s (Node ElementNode ''script'' (pre @ a # post) fc ns) b
           = Inr (None, snd (AddSrc L s (Val a)))"
  using script_attrs_one_src [OF assms, of L s] by simp

text \<open>
  C1. The walk of a document whose one script element has the one attribute
  \<open>src="http://example.com/a.js"\<close>: \<open>AddSrc\<close> returns the insecure-source error for
  that value, and the walk returns no error and leaves the policy empty.
\<close>

theorem AddFromHTML_drops_AddSrc_error:
  "AddSrc example_lib ScriptSrc_zero ''http://example.com/a.js''
     = (Some (InsecureScriptSrc ''http://example.com/a.js''), ScriptSrc_zero)
 \<and> AddFromHTML example_lib ScriptSrc_zero
       (document (element ''script'' [src_attr ''http://example.com/a.js''] None None)) True
     = Inr (None, ScriptSrc_zero)"
  by (simp add: example_simps AddSrc_def document_def element_def src_attr_def)

text \<open>
  C9. A script element with a second \<open>src\<close> attribute: the walk returns the
  duplicate-src error, and the policy it leaves is the one \<open>AddSrc\<close> made of the first
  \<open>src\<close> value. So \<open>Self\<close> is set when the first value has no scheme, and its host is in
  \<open>Hosts\<close> when the first value is an https reference, although the walk failed.
\<close>

theorem second_src_not_atomic:
  assumes "\<forall>a\<in>set pre. Key a \<noteq> ''src''" and "Key x = ''src''"
    and "\<forall>a\<in>set mid. Key a \<noteq> ''src''" and "Key y = ''src''"
  shows "AddFromHTML L s (Node ElementNode ''script'' (pre @ x # mid @ y # rest) fc ns) b
           = Inr (Some (SecondSrcAttribute (Val y)), snd (AddSrc L s (Val x)))
       \<and> (url_Parse L (Val x) = Inr u \<and> Scheme u = [] \<longrightarrow>
            Self (snd (AddSrc L s (Val x))))
       \<and> (url_Parse L (Val x) = Inr u \<and> Scheme u = ''https'' \<longrightarrow>
            ''https://'' @ Host u \<in> set (Hosts (snd (AddSrc L s (Val x)))))"
  using script_attrs_two_src [OF assms, of L s rest]
  by (simp add: AddSrc_no_scheme AddSrc_https insert_absent_def)

theorem second_src_not_atomic_witness:
  "AddFromHTML example_lib ScriptSrc_zero
     (Node ElementNode ''script''
        [src_attr ''foo.js'', src_attr ''https://cdn.example.com/a.js''] None None) True
     = Inr (Some (SecondSrcAttribute ''https://cdn.example.com/a.js''),
            ScriptSrc_zero\<lparr>Self := True\<rparr>)
 \<and> AddFromHTML example_lib ScriptSrc_zero
     (Node ElementNode ''script''
        [src_attr ''https://cdn.example.com/a.js'', src_attr ''foo.js''] None None) True
     = Inr (Some (SecondSrcAttribute ''foo.js''),
            ScriptSrc_zero\<lparr>Hosts := [''https://cdn.example.com'']\<rparr>)"
  using
    second_src_not_atomic [where pre = "[]" and mid = "[]" and rest = "[]"
      and x = "src_attr ''foo.js''" and y = "src_attr ''https://cdn.example.com/a.js''"
      and L = example_lib and s = ScriptSrc_zero and fc = None and ns = None and b = True
      and u = "mkURL [] [] ''foo.js''"]
    second_src_not_atomic [where pre = "[]" and mid = "[]" and rest = "[]"
      and x = "src_attr ''https://cdn.example.com/a.js''" and y = "src_attr ''foo.js''"
      and L = example_lib and s = ScriptSrc_zero and fc = None and ns = None and b = True
      and u = "mkURL ''https'' ''cdn.example.com'' ''/a.js''"]
  by (simp add: example_simps src_attr_def AddSrc_def slices_Contains_def)

text \<open>
  C5. A script element without a \<open>src\<close> attribute. Without a child the walk fails; with
  a first child that is not a text node it fails; with a text node that has a next sibling
  or a child it fails. Whenever the children are not exactly one text node without
  children, the error is one of the three invalid-inline-script errors and the policy is
  as before. With exactly one such text node the walk is \<open>AddInline\<close> of that node's
  content and nothing more.
\<close>

theorem inline_script_shape:
  assumes "\<forall>a\<in>set attrs. Key a \<noteq> ''src''"
  shows "(fc = None \<longrightarrow>
            AddFromHTML L s (Node ElementNode ''script'' attrs fc ns) b
              = Inr (Some NoSrcNoContent, s))
       \<and> (fc = Some c \<and> Type c \<noteq> TextNode \<longrightarrow>
            AddFromHTML L s (Node ElementNode ''script'' attrs fc ns) b
              = Inr (Some ChildNotTextNode, s))
       \<and> (fc = Some c \<and> Type c = TextNode
            \<and> (NextSibling c \<noteq> None \<or> FirstChild c \<noteq> None) \<longrightarrow>
            AddFromHTML L s (Node ElementNode ''script'' attrs fc ns) b
              = Inr (Some MultipleChildren, s))
       \<and> ((\<forall>content tattrs. fc \<noteq> Some (Node TextNode content tattrs None None)) \<longrightarrow>
            (\<exists>e. AddFromHTML L s (Node ElementNode ''script'' attrs fc ns) b
                    = Inr (Some e, s)
                  \<and> InvalidInlineScript e))
       \<and> (fc = Some (Node TextNode content tattrs None None) \<longrightarrow>
            AddFromHTML L s (Node ElementNode ''script'' attrs fc ns) b
              = (case AddInline L s content of
                   Inl p \<Rightarrow> Inl p
                 | Inr s' \<Rightarrow> Inr (None, s')))"
proof -
  have attrs: "script_attrs L s False attrs = (None, False, s)"
    using assms by (rule script_attrs_no_src)
  show ?thesis
  proof (cases fc)
    case None
    then show ?thesis using attrs by (simp add: InvalidInlineScript_def)
  next
    case (Some d)
    then show ?thesis using attrs
      by (cases d) (auto simp add: InvalidInlineScript_def)
  qed
qed

theorem inline_script_shape_witness:
  "AddFromHTML example_lib ScriptSrc_zero (Node ElementNode ''script'' [] None None) True
     = Inr (Some NoSrcNoContent, ScriptSrc_zero)
 \<and> AddFromHTML example_lib ScriptSrc_zero
       (Node ElementNode ''script'' [] (Some (Node ElementNode ''b'' [] None None)) None) True
     = Inr (Some ChildNotTextNode, ScriptSrc_zero)
 \<and> AddFromHTML example_lib ScriptSrc_zero
       (Node ElementNode ''script'' []
          (Some (Node TextNode ''go()'' [] None (Some (Node CommentNode ''x'' [] None None))))
          None) True
     = Inr (Some MultipleChildren, ScriptSrc_zero)
 \<and> AddFromHTML example_lib ScriptSrc_zero
       (Node ElementNode ''script'' [] (Some (Node TextNode ''go()'' [] None None)) None) True
     = Inr (None, ScriptSrc_zero\<lparr>Hashes := [''sha512-BASE64(SHA512(go()))'']\<rparr>)"
  using
    inline_script_shape [where attrs = "[]" and fc = None and L = example_lib
      and s = ScriptSrc_zero and ns = None and b = True]
    inline_script_shape [where attrs = "[]"
      and fc = "Some (Node ElementNode ''b'' [] None None)"
      and c = "Node ElementNode ''b'' [] None None" and L = example_lib
      and s = ScriptSrc_zero and ns = None and b = True]
    inline_script_shape [where attrs = "[]"
      and fc = "Some (Node TextNode ''go()'' [] None (Some (Node CommentNode ''x'' [] None None)))"
      and c = "Node TextNode ''go()'' [] None (Some (Node CommentNode ''x'' [] None None))"
      and L = example_lib and s = ScriptSrc_zero and ns = None and b = True]
    inline_script_shape [where attrs = "[]"
      and fc = "Some (Node TextNode ''go()'' [] None None)"
      and content = "''go()''" and tattrs = "[]" and L = example_lib
      and s = ScriptSrc_zero and ns = None and b = True]
    AddInline_Sha512 [of ScriptSrc_zero example_lib "''go()''"]
  by (simp add: example_simps Sha512_def)

section \<open>No panic under a supported algorithm\<close>

lemma AddInline_supported:
  "supported (DefaultHashAlgorithm s) \<Longrightarrow>
   \<exists>s'. AddInline L s content = Inr s' \<and> DefaultHashAlgorithm s' = DefaultHashAlgorithm s"
  by (auto simp add: supported_def AddInline_digest)

lemma AddSrc_alg: "DefaultHashAlgorithm (snd (AddSrc L s r)) = DefaultHashAlgorithm s"
  by (simp add: AddSrc_def Let_def split: sum.splits)

lemma script_attrs_alg:
  "DefaultHashAlgorithm (snd (snd (script_attrs L s hasSrc attrs))) = DefaultHashAlgorithm s"
  by (induction attrs arbitrary: s hasSrc) (simp_all add: AddSrc_alg)

lemma handler_attrs_supported:
  "supported (DefaultHashAlgorithm s) \<Longrightarrow>
   \<exists>s'. handler_attrs L s attrs = Inr s' \<and> DefaultHashAlgorithm s' = DefaultHashAlgorithm s"
proof (induction attrs arbitrary: s)
  case Nil
  then show ?case by simp
next
  case (Cons a attrs)
  show ?case
  proof (cases "strings_HasPrefix (Key a) ''on''")
    case True
    from AddInline_supported [OF Cons.prems, of L "Val a"] obtain s1
      where s1: "AddInline L s (Val a) = Inr s1"
        "DefaultHashAlgorithm s1 = DefaultHashAlgorithm s" by blast
    with Cons.prems have "supported (DefaultHashAlgorithm s1)" by simp
    from Cons.IH [OF this] s1 True show ?thesis by simp
  next
    case False
    with Cons.IH [OF Cons.prems] show ?thesis by simp
  qed
qed

lemma AddFromHTML_supported:
  "supported (DefaultHashAlgorithm s) \<Longrightarrow>
     \<exists>e s'. AddFromHTML L s n b = Inr (e, s')
            \<and> DefaultHashAlgorithm s' = DefaultHashAlgorithm s"
  "supported (DefaultHashAlgorithm s) \<Longrightarrow>
     \<exists>e s'. AddFromHTML_children L s c b = Inr (e, s')
            \<and> DefaultHashAlgorithm s' = DefaultHashAlgorithm s"
proof (induction L s n b and L s c b rule: AddFromHTML_AddFromHTML_children.induct)
  case (1 L scriptSrc ty data attrs firstChild nextSibling includeEventHandlers)
  show ?case
  proof (cases "ty = ElementNode \<and> data = ''script''")
    case True
    obtain e h s1 where sa: "script_attrs L scriptSrc False attrs = (e, h, s1)"
      by (cases "script_attrs L scriptSrc False attrs") auto
    with script_attrs_alg [of L scriptSrc False attrs]
    have alg: "DefaultHashAlgorithm s1 = DefaultHashAlgorithm scriptSrc" by simp
    with "1.prems" have "supported (DefaultHashAlgorithm s1)" by simp
    from AddInline_supported [OF this, of L]
    have inl: "\<And>content. \<exists>s'. AddInline L s1 content = Inr s'
        \<and> DefaultHashAlgorithm s' = DefaultHashAlgorithm scriptSrc"
      using alg by simp
    show ?thesis
    proof (cases e)
      case (Some err)
      with True sa alg show ?thesis by simp
    next
      case None
      show ?thesis
      proof (cases firstChild)
        case fcNone: None
        with True sa alg None show ?thesis by simp
      next
        case (Some content)
        from inl [of "Data content"] obtain s2 where
          "AddInline L s1 (Data content) = Inr s2"
          "DefaultHashAlgorithm s2 = DefaultHashAlgorithm scriptSrc" by blast
        with True sa alg None Some show ?thesis by simp
      qed
    qed
  next
    case False
    have "\<exists>s1. (if includeEventHandlers then handler_attrs L scriptSrc attrs
               else Inr scriptSrc) = Inr s1
        \<and> DefaultHashAlgorithm s1 = DefaultHashAlgorithm scriptSrc"
      using handler_attrs_supported [OF "1.prems", of L attrs] by simp
    then obtain s1 where s1: "(if includeEventHandlers then handler_attrs L scriptSrc attrs
               else Inr scriptSrc) = Inr s1"
        "DefaultHashAlgorithm s1 = DefaultHashAlgorithm scriptSrc"
      by blast
    with "1.prems" have "supported (DefaultHashAlgorithm s1)" by simp
    from "1.IH" [OF False s1(1) this] s1 False show ?thesis by auto
  qed
next
  case (2 L scriptSrc includeEventHandlers)
  then show ?case by simp
next
  case (3 L scriptSrc ty data attrs firstChild nextSibling includeEventHandlers)
  from "3.IH"(1) [OF "3.prems"] obtain e s1 where
    r: "AddFromHTML L scriptSrc (Node ty data attrs firstChild nextSibling) includeEventHandlers
          = Inr (e, s1)"
    and alg: "DefaultHashAlgorithm s1 = DefaultHashAlgorithm scriptSrc" by blast
  show ?case
  proof (cases e)
    case None
    from alg "3.prems" have "supported (DefaultHashAlgorithm s1)" by simp
    from "3.IH"(2) [OF r [unfolded None] refl refl this] r None alg show ?thesis
      by simp
  next
    case (Some err)
    with r alg show ?thesis by simp
  qed
qed

lemma AddFromHTMLFile_supported:
  assumes "supported (DefaultHashAlgorithm s)"
  shows "\<exists>e s'. AddFromHTMLFile L s path b = Inr (e, s')
            \<and> DefaultHashAlgorithm s' = DefaultHashAlgorithm s"
proof (cases "os_Open L path")
  case (Inl err)
  then show ?thesis by (simp add: AddFromHTMLFile_def)
next
  case (Inr f)
  show ?thesis
  proof (cases "html_Parse L f")
    case (Inl err)
    with Inr show ?thesis by (simp add: AddFromHTMLFile_def)
  next
    case doc: (Inr doc)
    from AddFromHTML_supported(1) [OF assms, of L doc b] obtain e s'
      where "AddFromHTML L s doc b = Inr (e, s')"
        "DefaultHashAlgorithm s' = DefaultHashAlgorithm s" by blast
    with Inr doc show ?thesis by (cases e) (simp_all add: AddFromHTMLFile_def)
  qed
qed

section \<open>Batches of files\<close>

lemma final_policy_Cons: "final_policy s (out # outs) = final_policy (snd out) outs"
  by (cases "rev outs") (simp_all add: final_policy_def)

lemma collected_errors_Cons:
  "collected_errors ((e, s) # outs)
     = (case e of None \<Rightarrow> collected_errors outs | Some err \<Rightarrow> err # collected_errors outs)"
  by (simp add: collected_errors_def split: option.splits)

text \<open>
  The loop never stops early: it yields the policy the last file left and, after the
  errors it started with, the error of every file that failed, in the order of the paths.
\<close>

lemma loop_outcomes:
  "supported (DefaultHashAlgorithm s) \<Longrightarrow>
   length (file_outcomes L b s paths) = length paths
   \<and> ScriptSrcFromHTMLFiles_loop L s errors paths b
       = Inr (final_policy s (file_outcomes L b s paths),
              errors @ collected_errors (file_outcomes L b s paths))"
proof (induction paths arbitrary: s errors)
  case Nil
  then show ?case by (simp add: final_policy_def collected_errors_def)
next
  case (Cons path paths)
  from AddFromHTMLFile_supported [OF Cons.prems, of L path b] obtain e s'
    where step: "AddFromHTMLFile L s path b = Inr (e, s')"
      and alg: "DefaultHashAlgorithm s' = DefaultHashAlgorithm s" by blast
  with Cons.prems have "supported (DefaultHashAlgorithm s')" by simp
  from Cons.IH [OF this] step show ?case
    by (cases e) (simp_all add: final_policy_Cons collected_errors_Cons)
qed

lemmas example_file_simps = example_os_Open_def example_html_Parse_def document_def
  element_def text_node_def src_attr_def AddFromHTMLFile_def AddSrc_def AddInline_def
  slices_Contains_def strings_HasPrefix_def Sha512_def Sha256_def
  final_policy_def collected_errors_def

text \<open>
  C6, as stated, at a batch in which one file fails: the missing file's own error comes
  back, which is not an aggregate of the collected errors.
\<close>

theorem ScriptSrcFromHTMLFiles_one_failure:
  "ScriptSrcFromHTMLFiles example_lib [''missing.html'', ''just-self.html''] True
     = Inr (None, Some (LibError ''open missing.html: no such file or directory''))
 \<and> LibError ''open missing.html: no such file or directory''
     \<noteq> MultipleErrors [LibError ''open missing.html: no such file or directory'']"
  by (simp add: ScriptSrcFromHTMLFiles_def example_simps example_file_simps)

text \<open>
  C6, amended. \<open>ScriptSrcFromHTMLFiles\<close> processes every path, each file into the policy
  the files before it left, whether they failed or not, and never panics. When no file
  failed it returns that policy and no error. When exactly one file failed it returns no
  policy and that file's error as it is. When two or more failed it returns no policy and
  one error holding all the collected errors in the order of the paths.
\<close>

theorem ScriptSrcFromHTMLFiles_collects:
  "length (file_outcomes L b ScriptSrc_zero paths) = length paths
 \<and> ScriptSrcFromHTMLFiles L paths b
     = Inr (case collected_errors (file_outcomes L b ScriptSrc_zero paths) of
              [] \<Rightarrow> (Some (final_policy ScriptSrc_zero
                            (file_outcomes L b ScriptSrc_zero paths)), None)
            | [err] \<Rightarrow> (None, Some err)
            | errs \<Rightarrow> (None, Some (MultipleErrors errs)))"
proof -
  have "supported (DefaultHashAlgorithm ScriptSrc_zero)"
    by (simp add: supported_def ScriptSrc_zero_def Sha512_def)
  from loop_outcomes [OF this, of L b paths "[]"] show ?thesis
    by (auto simp add: ScriptSrcFromHTMLFiles_def split: list.splits)
qed

theorem ScriptSrcFromHTMLFiles_collects_witness:
  "ScriptSrcFromHTMLFiles example_lib
     [''missing.html'', ''just-self.html'', ''empty-script.html'', ''inline.html''] True
     = Inr (None, Some (MultipleErrors
         [LibError ''open missing.html: no such file or directory'',
          FailedToProcess ''empty-script.html'' NoSrcNoContent]))
 \<and> ScriptSrcFromHTMLFiles example_lib [''just-self.html'', ''inline.html''] True
     = Inr (Some (ScriptSrc_zero\<lparr>Self := True,
                    Hashes := [''sha512-BASE64(SHA512(go()))'']\<rparr>), None)
 \<and> file_outcomes example_lib True ScriptSrc_zero
      [''missing.html'', ''just-self.html'', ''empty-script.html'', ''inline.html'']
     = [(Some (LibError ''open missing.html: no such file or directory''), ScriptSrc_zero),
        (None, ScriptSrc_zero\<lparr>Self := True\<rparr>),
        (Some (FailedToProcess ''empty-script.html'' NoSrcNoContent),
         ScriptSrc_zero\<lparr>Self := True\<rparr>),
        (None, ScriptSrc_zero\<lparr>Self := True,
                  Hashes := [''sha512-BASE64(SHA512(go()))'']\<rparr>)]"
proof -
  have outs: "file_outcomes example_lib True ScriptSrc_zero
      [''missing.html'', ''just-self.html'', ''empty-script.html'', ''inline.html'']
     = [(Some (LibError ''open missing.html: no such file or directory''), ScriptSrc_zero),
        (None, ScriptSrc_zero\<lparr>Self := True\<rparr>),
        (Some (FailedToProcess ''empty-script.html'' NoSrcNoContent),
         ScriptSrc_zero\<lparr>Self := True\<rparr>),
        (None, ScriptSrc_zero\<lparr>Self := True,
                  Hashes := [''sha512-BASE64(SHA512(go()))'']\<rparr>)]"
    by (simp add: example_simps example_file_simps)
  have outs2:
    "file_outcomes example_lib True ScriptSrc_zero [''just-self.html'', ''inline.html'']
     = [(None, ScriptSrc_zero\<lparr>Self := True\<rparr>),
        (None, ScriptSrc_zero\<lparr>Self := True,
                  Hashes := [''sha512-BASE64(SHA512(go()))'']\<rparr>)]"
    by (simp add: example_simps example_file_simps)
  from outs outs2
    ScriptSrcFromHTMLFiles_collects [of example_lib True
      "[''missing.html'', ''just-self.html'', ''empty-script.html'', ''inline.html'']"]
    ScriptSrcFromHTMLFiles_collects [of example_lib True
      "[''just-self.html'', ''inline.html'']"]
  show ?thesis
    by (simp add: final_policy_def collected_errors_def)
qed

end
